theory Spec2Isabelle
  imports Main "HOL-Library.Word"
begin

section \<open>DHCPv6 data model\<close>

text \<open>
  The plugins work on the message views of the protocol library
  (\<^verbatim>\<open>github.com/insomniacslk/dhcp\<close>). Only the parts of those views that the two plugins
  read or write are modelled: option lists in their order, the four byte identifier of an
  identity association, and the one level of nesting a relay message adds.
\<close>

type_synonym byte = "8 word"

text \<open>\<^verbatim>\<open>[4]byte\<close>: a fixed array of four bytes; \<^verbatim>\<open>iaid[:]\<close> is its slice.\<close>

type_synonym iaid = "byte \<times> byte \<times> byte \<times> byte"

fun slice4 :: "iaid \<Rightarrow> byte list" where
  "slice4 (a, b, c, d) = [a, b, c, d]"

text \<open>\<^verbatim>\<open>bytes.Compare\<close>: lexicographic order on byte slices, as -1, 0 or 1.\<close>

fun bytes_Compare :: "byte list \<Rightarrow> byte list \<Rightarrow> int" where
  "bytes_Compare [] [] = 0"
| "bytes_Compare [] (y # ys) = - 1"
| "bytes_Compare (x # xs) [] = 1"
| "bytes_Compare (x # xs) (y # ys) =
     (if x < y then - 1 else if y < x then 1 else bytes_Compare xs ys)"

text \<open>\<^verbatim>\<open>dhcpv6.OptionCode\<close> and \<^verbatim>\<open>iana.StatusCode\<close> are \<^verbatim>\<open>uint16\<close>.\<close>

type_synonym OptionCode = "16 word"
type_synonym StatusCode = "16 word"

definition OptionIANA :: OptionCode where "OptionIANA = 3"
definition OptionIATA :: OptionCode where "OptionIATA = 4"
definition OptionRelayMsg :: OptionCode where "OptionRelayMsg = 9"
definition OptionIAPD :: OptionCode where "OptionIAPD = 25"

definition StatusNoAddrsAvail :: StatusCode where "StatusNoAddrsAvail = 2"
definition StatusNoPrefixAvail :: StatusCode where "StatusNoPrefixAvail = 6"

text \<open>
  The options carried inside an identity association (\<^verbatim>\<open>IdentityOptions\<close>,
  \<^verbatim>\<open>PDOptions\<close>): granted addresses, granted prefixes, status codes, anything else.
\<close>

datatype IAOption =
    OptIAAddress "byte list"
  | OptIAPrefix byte "byte list"
  | OptStatusCode StatusCode string
  | OptGenericIA OptionCode "byte list"

text \<open>\<^verbatim>\<open>Options.Add\<close> appends.\<close>

definition Options_Add :: "'a list \<Rightarrow> 'a \<Rightarrow> 'a list" where
  "Options_Add opts opt = opts @ [opt]"

fun Addresses :: "IAOption list \<Rightarrow> byte list list" where
  "Addresses [] = []"
| "Addresses (OptIAAddress a # opts) = a # Addresses opts"
| "Addresses (_ # opts) = Addresses opts"

definition OneAddress :: "IAOption list \<Rightarrow> byte list option" where
  "OneAddress opts = (case Addresses opts of [] \<Rightarrow> None | a # _ \<Rightarrow> Some a)"

fun Prefixes :: "IAOption list \<Rightarrow> (byte \<times> byte list) list" where
  "Prefixes [] = []"
| "Prefixes (OptIAPrefix l p # opts) = (l, p) # Prefixes opts"
| "Prefixes (_ # opts) = Prefixes opts"

text \<open>
  The three implementations of the interface \<^verbatim>\<open>IdentityAssociation\<close>. \<^verbatim>\<open>OptIANA\<close> and
  \<^verbatim>\<open>OptIAPD\<close> carry \<^verbatim>\<open>T1\<close> and \<^verbatim>\<open>T2\<close> (\<^verbatim>\<open>time.Duration\<close>, 64 bits), \<^verbatim>\<open>OptIATA\<close> does not.
\<close>

datatype IdentityAssociation =
    OptIANA iaid "64 word" "64 word" "IAOption list"
  | OptIATA iaid "IAOption list"
  | OptIAPD iaid "64 word" "64 word" "IAOption list"

fun Id_ia :: "IdentityAssociation \<Rightarrow> iaid" where
  "Id_ia (OptIANA i t1 t2 opts) = i"
| "Id_ia (OptIATA i opts) = i"
| "Id_ia (OptIAPD i t1 t2 opts) = i"

fun Code :: "IdentityAssociation \<Rightarrow> OptionCode" where
  "Code (OptIANA i t1 t2 opts) = OptionIANA"
| "Code (OptIATA i opts) = OptionIATA"
| "Code (OptIAPD i t1 t2 opts) = OptionIAPD"

fun IAOptions :: "IdentityAssociation \<Rightarrow> IAOption list" where
  "IAOptions (OptIANA i t1 t2 opts) = opts"
| "IAOptions (OptIATA i opts) = opts"
| "IAOptions (OptIAPD i t1 t2 opts) = opts"

text \<open>\<^verbatim>\<open>New\<close> ignores the receiver's fields: a zero value of the receiver's type with the identifier set.\<close>

fun New :: "IdentityAssociation \<Rightarrow> iaid \<Rightarrow> IdentityAssociation" where
  "New (OptIANA i t1 t2 opts) iaid = OptIANA iaid 0 0 []"
| "New (OptIATA i opts) iaid = OptIATA iaid []"
| "New (OptIAPD i t1 t2 opts) iaid = OptIAPD iaid 0 0 []"

fun Allocated :: "IdentityAssociation \<Rightarrow> bool" where
  "Allocated (OptIANA i t1 t2 opts) = (OneAddress opts \<noteq> None)"
| "Allocated (OptIATA i opts) = (OneAddress opts \<noteq> None)"
| "Allocated (OptIAPD i t1 t2 opts) = (length (Prefixes opts) > 0)"

fun AddStatusUnavailable :: "IdentityAssociation \<Rightarrow> IdentityAssociation" where
  "AddStatusUnavailable (OptIANA i t1 t2 opts) =
     OptIANA i t1 t2 (Options_Add opts (OptStatusCode StatusNoAddrsAvail []))"
| "AddStatusUnavailable (OptIATA i opts) =
     OptIATA i (Options_Add opts (OptStatusCode StatusNoAddrsAvail []))"
| "AddStatusUnavailable (OptIAPD i t1 t2 opts) =
     OptIAPD i t1 t2 (Options_Add opts (OptStatusCode StatusNoPrefixAvail []))"

text \<open>
  A DHCPv6 packet is a client/server message or a relay message; a relay message carries
  the packet it relays in its relay-message option. \<^verbatim>\<open>MessageType\<close> and \<^verbatim>\<open>HopCount\<close> are
  \<^verbatim>\<open>uint8\<close>, the transaction identifier is three bytes, addresses are byte slices.

  An identity association sits in an option list under one of two Go types: the library's
  (\<^verbatim>\<open>*dhcpv6.OptIANA\<close>, \<^verbatim>\<open>*dhcpv6.OptIATA\<close>, \<^verbatim>\<open>*dhcpv6.OptIAPD\<close>), which is what the
  decoder and the server build (\<open>OptIA\<close>), or the plugin's own (\<^verbatim>\<open>*OptIANA\<close>, \<^verbatim>\<open>*OptIATA\<close>,
  \<^verbatim>\<open>*OptIAPD\<close> of package responsestats), which is what \<^verbatim>\<open>New\<close> returns and \<^verbatim>\<open>ia_fixup\<close>
  appends (\<open>OptPluginIA\<close>). Both have the same fields and the same option code.
\<close>

datatype Option =
    OptIA IdentityAssociation
  | OptPluginIA IdentityAssociation
  | OptRelayMsg DHCPv6
  | OptGeneric OptionCode "byte list"
and DHCPv6 =
    Message (MessageType: byte) (TransactionID: "byte \<times> byte \<times> byte") (Options: "Option list")
  | RelayMessage (MessageType: byte) (HopCount: byte) (LinkAddr: "byte list")
      (PeerAddr: "byte list") (Options: "Option list")

fun IsRelay :: "DHCPv6 \<Rightarrow> bool" where
  "IsRelay (Message t x opts) = False"
| "IsRelay (RelayMessage t h l p opts) = True"

text \<open>\<^verbatim>\<open>AddOption\<close> of both packet kinds appends to the packet's options.\<close>

fun AddOption :: "DHCPv6 \<Rightarrow> Option \<Rightarrow> DHCPv6" where
  "AddOption (Message t x opts) opt = Message t x (Options_Add opts opt)"
| "AddOption (RelayMessage t h l p opts) opt = RelayMessage t h l p (Options_Add opts opt)"

fun Option_Code :: "Option \<Rightarrow> OptionCode" where
  "Option_Code (OptIA ia) = Code ia"
| "Option_Code (OptPluginIA ia) = Code ia"
| "Option_Code (OptRelayMsg m) = OptionRelayMsg"
| "Option_Code (OptGeneric c v) = c"

text \<open>\<^verbatim>\<open>Options.Get\<close>: the options with the code, in their order.\<close>

definition Options_Get :: "OptionCode \<Rightarrow> Option list \<Rightarrow> Option list" where
  "Options_Get c opts = filter (\<lambda>opt. Option_Code opt = c) opts"

text \<open>
  \<^verbatim>\<open>MessageOptions.IANA\<close>, \<^verbatim>\<open>IATA\<close> and \<^verbatim>\<open>IAPD\<close> take the options with the code and
  assert the library's type on each of them, in their order. The assertion is unchecked:
  on any other option under the code (the plugin's own type, an opaque option) the accessor
  panics, which is \<open>None\<close> here.
\<close>

fun associations :: "Option list \<Rightarrow> IdentityAssociation list option" where
  "associations [] = Some []"
| "associations (OptIA ia # opts) =
     (case associations opts of None \<Rightarrow> None | Some ias \<Rightarrow> Some (ia # ias))"
| "associations (_ # opts) = None"

definition IAs :: "OptionCode \<Rightarrow> Option list \<Rightarrow> IdentityAssociation list option" where
  "IAs c opts = associations (Options_Get c opts)"

definition IANA :: "Option list \<Rightarrow> IdentityAssociation list option" where
  "IANA opts = IAs OptionIANA opts"

definition IATA :: "Option list \<Rightarrow> IdentityAssociation list option" where
  "IATA opts = IAs OptionIATA opts"

definition IAPD :: "Option list \<Rightarrow> IdentityAssociation list option" where
  "IAPD opts = IAs OptionIAPD opts"

text \<open>
  The identifier an option carries, for the two kinds that carry one (\<^verbatim>\<open>IaId\<close> of the
  library's type, \<^verbatim>\<open>Id()\<close> of the plugin's).
\<close>

fun Option_Id :: "Option \<Rightarrow> iaid option" where
  "Option_Id (OptIA ia) = Some (Id_ia ia)"
| "Option_Id (OptPluginIA ia) = Some (Id_ia ia)"
| "Option_Id (OptRelayMsg m) = None"
| "Option_Id (OptGeneric c v) = None"

text \<open>\<^verbatim>\<open>FromIANA\<close>, \<^verbatim>\<open>FromIATA\<close>, \<^verbatim>\<open>FromIAPD\<close> convert each element to the interface type.\<close>

definition FromIANA :: "IdentityAssociation list \<Rightarrow> IdentityAssociation list" where
  "FromIANA ia = map (\<lambda>iana. iana) ia"

definition FromIATA :: "IdentityAssociation list \<Rightarrow> IdentityAssociation list" where
  "FromIATA ia = map (\<lambda>iata. iata) ia"

definition FromIAPD :: "IdentityAssociation list \<Rightarrow> IdentityAssociation list" where
  "FromIAPD ia = map (\<lambda>iapd. iapd) ia"

section \<open>responsestats: reconciling the response with the request\<close>

text \<open>
  The local variables of \<^verbatim>\<open>ia_fixup\<close> and the packet behind \<^verbatim>\<open>resp\<close>. The counters are
  Go \<^verbatim>\<open>int\<close>; each grows by at most one per request association, so they do not overflow.
\<close>

record fixup_state =
  resp_pkt :: DHCPv6
  satisfied :: nat
  unsatisfied :: nat
  newstatus :: nat

text \<open>The inner loop: scan the response associations, stop at the first equal identifier.\<close>

fun scan_response :: "iaid \<Rightarrow> IdentityAssociation list \<Rightarrow> fixup_state \<Rightarrow> bool \<times> fixup_state" where
  "scan_response iaid [] s = (False, s)"
| "scan_response iaid (respia # rest) s =
     (let respiaid = Id_ia respia in
      if bytes_Compare (slice4 iaid) (slice4 respiaid) = 0 then
        (if Allocated respia then (True, s\<lparr>satisfied := satisfied s + 1\<rparr>)
         else (True, s\<lparr>unsatisfied := unsatisfied s + 1\<rparr>))
      else scan_response iaid rest s)"

text \<open>The body of the outer loop, for one request association.\<close>

definition fixup_one :: "IdentityAssociation list \<Rightarrow> IdentityAssociation \<Rightarrow> fixup_state \<Rightarrow> fixup_state" where
  "fixup_one response_ias reqia s =
     (let iaid = Id_ia reqia;
          (found, s1) = scan_response iaid response_ias s
      in if \<not> found then
           (let newresp = AddStatusUnavailable (New reqia iaid)
            in s1\<lparr>unsatisfied := unsatisfied s1 + 1,
                  newstatus := newstatus s1 + 1,
                  resp_pkt := AddOption (resp_pkt s1) (OptPluginIA newresp)\<rparr>)
         else s1)"

fun fixup_loop :: "IdentityAssociation list \<Rightarrow> IdentityAssociation list \<Rightarrow> fixup_state \<Rightarrow> fixup_state" where
  "fixup_loop response_ias [] s = s"
| "fixup_loop response_ias (reqia # rest) s = fixup_loop response_ias rest (fixup_one response_ias reqia s)"

text \<open>\<^verbatim>\<open>ia_fixup\<close> returns the packet behind \<^verbatim>\<open>resp\<close> after the call, the quantifier and \<^verbatim>\<open>newstatus\<close>.\<close>

definition ia_fixup :: "DHCPv6 \<Rightarrow> IdentityAssociation list \<Rightarrow> IdentityAssociation list
    \<Rightarrow> DHCPv6 \<times> string \<times> nat" where
  "ia_fixup resp request_ias response_ias =
     (let s = fixup_loop response_ias request_ias
                \<lparr>resp_pkt = resp, satisfied = 0, unsatisfied = 0, newstatus = 0\<rparr>
      in if unsatisfied s = 0 then (resp_pkt s, ''all'', newstatus s)
         else if satisfied s = 0 then (resp_pkt s, ''none'', newstatus s)
         else (resp_pkt s, ''some'', newstatus s))"

text \<open>
  What a handler does besides returning: increments of the Prometheus counters (named by
  their metric names), lines for the package logger (the format string is kept, the
  rendering of its arguments is the formatting library's), and the line given to
  \<^verbatim>\<open>state.Logger\<close>. The sink is write-only, so the sequence of calls is its whole state.
\<close>

datatype metric =
    dhcpv4_responses_total
  | dhcpv4_leases_processed_total
  | dhcpv4_to_relays_total
  | dhcpv6_responses_total
  | dhcpv6_to_relays_total
  | dhcpv6_ias_processed_total
  | dhcpv4_requests_total
  | dhcpv4_from_relays_total
  | dhcpv4_rai_missing_suboptions_total
  | dhcpv6_requests_total
  | dhcpv6_from_relays_total
  | dhcpv6_requested_ias_total

text \<open>A label value: a literal, or the library's \<^verbatim>\<open>String()\<close> of a message type.\<close>

datatype label =
    Lit string
  | MessageType_String byte
  | MessageType4_String byte

datatype logline =
    LogAdded nat DHCPv6
  | LogResponse DHCPv6
  | LogAllocated "byte list" "byte list"
  | LogNoRAI "byte list" "byte list" "byte list"
  | LogRelay "byte list" "byte list option" string "byte list" "byte list"

datatype event =
    Inc metric "label list"
  | Add metric "label list" nat
  | Errorf string
  | Warningf string
  | Infof string
  | Logger logline

text \<open>
  The result of a handler: the packet it returns (\<open>None\<close> is \<^verbatim>\<open>nil\<close>), the stop flag that
  makes the server drop the exchange, the response object as the call leaves it, and the
  calls made on the sinks in their order. A handler that reads associations may panic
  instead of returning: \<open>Panic\<close> holds the calls made before and the response object as the
  panic leaves it.
\<close>

datatype 'p panic = Panic "event list" 'p

record 'p outcome =
  returned :: "'p option"
  dropped :: bool
  final_resp :: 'p
  effects :: "event list"

text \<open>The type assertion \<^verbatim>\<open>x.(*dhcpv6.Message)\<close> and \<^verbatim>\<open>x.(*dhcpv6.RelayMessage)\<close> succeed on:\<close>

fun is_a_Message :: "DHCPv6 \<Rightarrow> bool" where
  "is_a_Message (Message t x opts) = True"
| "is_a_Message (RelayMessage t h l p opts) = False"

fun is_a_RelayMessage :: "DHCPv6 \<Rightarrow> bool" where
  "is_a_RelayMessage (Message t x opts) = False"
| "is_a_RelayMessage (RelayMessage t h l p opts) = True"

text \<open>
  One of the three blocks of \<^verbatim>\<open>Handler6\<close>, which differ in the accessor, the conversion and
  the label only: read the request's associations; when there are some, read the
  response's, reconcile, and count the quantifier. \<open>None\<close> when an accessor panics.
\<close>

definition fixup_block ::
    "(Option list \<Rightarrow> IdentityAssociation list option)
     \<Rightarrow> (IdentityAssociation list \<Rightarrow> IdentityAssociation list)
     \<Rightarrow> string \<Rightarrow> DHCPv6 \<Rightarrow> DHCPv6 \<Rightarrow> nat \<Rightarrow> (DHCPv6 \<times> event list \<times> nat) option" where
  "fixup_block accessor convert name req resp all_adds =
     (case accessor (Options req) of
        None \<Rightarrow> None
      | Some req_ias \<Rightarrow>
          if length req_ias > 0 then
            (case accessor (Options resp) of
               None \<Rightarrow> None
             | Some resp_ias \<Rightarrow>
                 (let (r, quantifier, adds) = ia_fixup resp (convert req_ias) (convert resp_ias)
                  in Some (r, [Inc dhcpv6_ias_processed_total [Lit name, Lit quantifier]],
                           all_adds + adds)))
          else Some (resp, [], all_adds))"

definition responsestats_Handler6 :: "DHCPv6 \<Rightarrow> DHCPv6 \<Rightarrow> DHCPv6 panic + DHCPv6 outcome" where
  "responsestats_Handler6 req resp =
     (if \<not> is_a_Message resp then
        Inr \<lparr>returned = None, dropped = True, final_resp = resp,
             effects = [Inc dhcpv6_responses_total [Lit ''error''],
                        Errorf ''response message format bug: %v'']\<rparr>
      else if \<not> is_a_Message req then
        Inr \<lparr>returned = None, dropped = True, final_resp = resp,
             effects = [Inc dhcpv6_responses_total [Lit ''error''],
                        Errorf ''request message format bug: %v'']\<rparr>
      else
        (let e0 = (if IsRelay req then [Inc dhcpv6_to_relays_total []] else [])
                  @ [Inc dhcpv6_responses_total [MessageType_String (MessageType resp)]];
             all_adds = 0
         in case fixup_block IANA FromIANA ''IA_NA'' req resp all_adds of
              None \<Rightarrow> Inl (Panic e0 resp)
            | Some (resp1, e1, all_adds1) \<Rightarrow>
         (case fixup_block IATA FromIATA ''IA_TA'' req resp1 all_adds1 of
              None \<Rightarrow> Inl (Panic (e0 @ e1) resp1)
            | Some (resp2, e2, all_adds2) \<Rightarrow>
         (case fixup_block IAPD FromIAPD ''IA_PD'' req resp2 all_adds2 of
              None \<Rightarrow> Inl (Panic (e0 @ e1 @ e2) resp2)
            | Some (resp3, e3, all_adds3) \<Rightarrow>
                (let e4 = (if all_adds3 > 0 then [Logger (LogAdded all_adds3 resp3)]
                           else [Logger (LogResponse resp3)])
                 in Inr \<lparr>returned = Some resp3, dropped = False, final_resp = resp3,
                         effects = e0 @ e1 @ e2 @ e3 @ e4\<rparr>)))))"

section \<open>Relay decapsulation\<close>

text \<open>
  The library functions the request handler calls: \<^verbatim>\<open>RelayOptions.RelayMessage\<close> (the
  packet in the first relay-message option), \<^verbatim>\<open>DecapsulateRelay\<close> (one level, the packet
  itself when it is no relay message), \<^verbatim>\<open>DecapsulateRelayIndex\<close> (index -1: the innermost
  relay message) and \<^verbatim>\<open>RelayMessage.GetInnerMessage\<close> (the client message inside).
  They follow the library's documentation: \<^verbatim>\<open>DecapsulateRelay\<close> does not recurse into
  nested relay messages, and both it and \<^verbatim>\<open>DecapsulateRelayIndex\<close> return the packet they
  were given when it is not a relay message; the handler's own comment on index -1 is
  "inner will be the innermost relay message". None of them takes a bound on the nesting
  depth.
\<close>

datatype error = MalformedRelay | InvalidIndex int

definition Options_GetOne :: "OptionCode \<Rightarrow> Option list \<Rightarrow> Option option" where
  "Options_GetOne c opts = (case Options_Get c opts of [] \<Rightarrow> None | opt # _ \<Rightarrow> Some opt)"

definition RelayOptions_RelayMessage :: "Option list \<Rightarrow> DHCPv6 option" where
  "RelayOptions_RelayMessage opts =
     (case Options_GetOne OptionRelayMsg opts of
        Some (OptRelayMsg m) \<Rightarrow> Some m
      | _ \<Rightarrow> None)"

definition DecapsulateRelay :: "DHCPv6 \<Rightarrow> error + DHCPv6" where
  "DecapsulateRelay l =
     (if \<not> IsRelay l then Inr l
      else case RelayOptions_RelayMessage (Options l) of
             Some rm \<Rightarrow> Inr rm
           | None \<Rightarrow> Inl MalformedRelay)"

text \<open>The relayed packet is a proper part of the relay message: the loops below end.\<close>

lemma relayed_size: "OptRelayMsg m \<in> set opts \<Longrightarrow> size m < Suc (size_list size opts)"
  by (induction opts) auto

lemma RelayMessage_mem: "RelayOptions_RelayMessage opts = Some m \<Longrightarrow> OptRelayMsg m \<in> set opts"
proof -
  assume a: "RelayOptions_RelayMessage opts = Some m"
  then obtain opt rest
    where g: "Options_Get OptionRelayMsg opts = opt # rest" and o: "opt = OptRelayMsg m"
    by (auto simp: RelayOptions_RelayMessage_def Options_GetOne_def
        split: list.splits Option.splits option.splits)
  have "opt \<in> set (Options_Get OptionRelayMsg opts)" using g by simp
  then show ?thesis using o by (simp add: Options_Get_def)
qed

lemma DecapsulateRelay_smaller:
  "DecapsulateRelay l = Inr d \<Longrightarrow> IsRelay l \<Longrightarrow> size d < size l"
  by (cases l)
     (auto simp: DecapsulateRelay_def split: option.splits dest!: RelayMessage_mem relayed_size)

text \<open>
  The loop of \<^verbatim>\<open>DecapsulateRelayIndex\<close> for index -1: go down while the relayed packet
  is itself a relay message, and return the last relay message.
\<close>

function decapsulate_last :: "DHCPv6 \<Rightarrow> error + DHCPv6" where
  "decapsulate_last l =
     (case DecapsulateRelay l of
        Inl err \<Rightarrow> Inl err
      | Inr d \<Rightarrow> if \<not> IsRelay d then Inr l else decapsulate_last d)"
  by pat_completeness auto
termination
proof (relation "measure size")
  show "wf (measure size)" by simp
next
  fix l d
  assume a: "DecapsulateRelay l = Inr d" and r: "\<not> \<not> IsRelay d"
  have "IsRelay l"
  proof (rule ccontr)
    assume n: "\<not> IsRelay l"
    then have "d = l" using a by (simp add: DecapsulateRelay_def)
    with r n show False by simp
  qed
  then show "(d, l) \<in> measure size" using a by (simp add: DecapsulateRelay_smaller)
qed

text \<open>The loop for an index from 0: \<open>index + 1\<close> single decapsulations.\<close>

fun decapsulate_upto :: "nat \<Rightarrow> DHCPv6 \<Rightarrow> error + DHCPv6" where
  "decapsulate_upto 0 l = Inr l"
| "decapsulate_upto (Suc n) l =
     (case DecapsulateRelay l of
        Inl err \<Rightarrow> Inl err
      | Inr d \<Rightarrow> decapsulate_upto n d)"

definition DecapsulateRelayIndex :: "DHCPv6 \<Rightarrow> int \<Rightarrow> error + DHCPv6" where
  "DecapsulateRelayIndex l index =
     (if \<not> IsRelay l then Inr l
      else if index < - 1 then Inl (InvalidIndex index)
      else if index = - 1 then decapsulate_last l
      else decapsulate_upto (nat (index + 1)) l)"

function GetInnerMessage :: "DHCPv6 \<Rightarrow> error + DHCPv6" where
  "GetInnerMessage p =
     (case DecapsulateRelay p of
        Inl err \<Rightarrow> Inl err
      | Inr p' \<Rightarrow> if is_a_Message p' then Inr p' else GetInnerMessage p')"
  by pat_completeness auto
termination
proof (relation "measure size")
  show "wf (measure size)" by simp
next
  fix p p'
  assume a: "DecapsulateRelay p = Inr p'" and r: "\<not> is_a_Message p'"
  have "IsRelay p"
  proof (rule ccontr)
    assume n: "\<not> IsRelay p"
    then have "p' = p" using a by (simp add: DecapsulateRelay_def)
    with r n show False by (cases p) simp_all
  qed
  then show "(p', p) \<in> measure size" using a by (simp add: DecapsulateRelay_smaller)
qed

text \<open>The two loop equations rewrite their own right-hand sides; they are unfolded by hand.\<close>

declare decapsulate_last.simps [simp del] GetInnerMessage.simps [simp del]

section \<open>requeststats: the DHCPv6 request handler\<close>

text \<open>
  \<^verbatim>\<open>return nil, true\<close> after the calls \<open>es\<close> on the sinks. The handler reads the request only
  and returns the response it was given. Its first test stops a request that is neither a
  relay message nor a client message; a relay message counts as coming from a relay.
\<close>

definition stop6 :: "DHCPv6 \<Rightarrow> event list \<Rightarrow> DHCPv6 outcome" where
  "stop6 resp es = \<lparr>returned = None, dropped = True, final_resp = resp, effects = es\<rparr>"

text \<open>The counter of the associations asked for, when there are some.\<close>

definition add_requested :: "string \<Rightarrow> nat \<Rightarrow> event list" where
  "add_requested name n =
     (if n > 0 then [Add dhcpv6_requested_ias_total [Lit name] n] else [])"

definition requeststats_Handler6 :: "DHCPv6 \<Rightarrow> DHCPv6 \<Rightarrow> DHCPv6 panic + DHCPv6 outcome" where
  "requeststats_Handler6 req resp =
     (if \<not> IsRelay req \<and> \<not> is_a_Message req then
        Inr (stop6 resp [Inc dhcpv6_requests_total [Lit ''error''],
                         Errorf ''request message format bug: %v''])
      else
        (let e0 = (if IsRelay req then [Inc dhcpv6_from_relays_total []] else [])
         in case DecapsulateRelayIndex req (- 1) of
              Inl err \<Rightarrow>
                Inr (stop6 resp (e0 @ [Inc dhcpv6_requests_total [Lit ''error''],
                                       Errorf ''could not decapsulate: %v'']))
            | Inr innermsg \<Rightarrow>
                if \<not> is_a_RelayMessage innermsg then
                  Inr (stop6 resp (e0 @ [Inc dhcpv6_requests_total [Lit ''error''],
                                         Errorf ''relay message format bug: %v'']))
                else
                  (case GetInnerMessage innermsg of
                     Inl err \<Rightarrow>
                       Inr (stop6 resp (e0 @ [Inc dhcpv6_requests_total [Lit ''error''],
                                              Errorf ''could not decapsulate inner message: %v'']))
                   | Inr msg \<Rightarrow>
                       (let e1 = e0 @ [Inc dhcpv6_requests_total
                                         [MessageType_String (MessageType msg)]]
                        in case IANA (Options msg) of
                             None \<Rightarrow> Inl (Panic e1 resp)
                           | Some ianas \<Rightarrow>
                        (let e2 = e1 @ add_requested ''IA_NA'' (length ianas)
                         in case IATA (Options msg) of
                              None \<Rightarrow> Inl (Panic e2 resp)
                            | Some iatas \<Rightarrow>
                        (let e3 = e2 @ add_requested ''IA_TA'' (length iatas)
                         in case IAPD (Options msg) of
                              None \<Rightarrow> Inl (Panic e3 resp)
                            | Some iapds \<Rightarrow>
                                Inr \<lparr>returned = Some resp, dropped = False, final_resp = resp,
                                     effects = e3 @ add_requested ''IA_PD'' (length iapds)\<rparr>))))))"

section \<open>DHCPv4\<close>

text \<open>
  A relay agent information option holds its sub-options by code
  (\<^verbatim>\<open>map[uint8][]byte\<close>). \<^verbatim>\<open>GetString\<close> is the value as a string, empty when the code is
  absent; \<^verbatim>\<open>GetIP\<close> is the value as an IPv4 address, \<^verbatim>\<open>nil\<close> when the code is absent or the
  value is not four bytes.
\<close>

type_synonym RelayOptions = "byte \<rightharpoonup> string"

definition AgentCircuitIDSubOption :: byte where "AgentCircuitIDSubOption = 1"
definition AgentRemoteIDSubOption :: byte where "AgentRemoteIDSubOption = 2"
definition LinkSelectionSubOption :: byte where "LinkSelectionSubOption = 5"

definition GetString :: "byte \<Rightarrow> RelayOptions \<Rightarrow> string" where
  "GetString code opts = (case opts code of None \<Rightarrow> [] | Some v \<Rightarrow> v)"

definition GetIP :: "byte \<Rightarrow> RelayOptions \<Rightarrow> byte list option" where
  "GetIP code opts =
     (case opts code of
        None \<Rightarrow> None
      | Some v \<Rightarrow> if length v = 4 then Some (map of_char v) else None)"

text \<open>
  The fields of \<^verbatim>\<open>dhcpv4.DHCPv4\<close> the handlers read. \<open>MessageType4\<close> and
  \<open>RelayAgentInfo\<close> stand for the results of the accessors \<^verbatim>\<open>MessageType()\<close> and
  \<^verbatim>\<open>RelayAgentInfo()\<close>, which decode options 53 and 82 of \<open>Options4\<close>; the decoding is the
  library's and is not modelled.
\<close>

record DHCPv4 =
  OpCode :: byte
  ClientHWAddr :: "byte list"
  YourIPAddr :: "byte list"
  GatewayIPAddr :: "byte list"
  MessageType4 :: byte
  RelayAgentInfo :: "RelayOptions option"
  Options4 :: "byte \<rightharpoonup> byte list"

definition OpcodeBootRequest :: byte where "OpcodeBootRequest = 1"
definition MessageTypeAck :: byte where "MessageTypeAck = 5"

text \<open>
  \<^verbatim>\<open>net.IP.IsUnspecified\<close>: the address equals 0.0.0.0 (in its 4 byte or its 16 byte form)
  or the IPv6 address of 16 zero bytes.
\<close>

definition IsUnspecified :: "byte list \<Rightarrow> bool" where
  "IsUnspecified ip =
     (ip = [0, 0, 0, 0]
      \<or> ip = [0, 0, 0, 0, 0, 0, 0, 0, 0, 0, 255, 255, 0, 0, 0, 0]
      \<or> ip = [0, 0, 0, 0, 0, 0, 0, 0, 0, 0, 0, 0, 0, 0, 0, 0])"

text \<open>\<^verbatim>\<open>return resp, false\<close> after the calls \<open>es\<close> on the sinks.\<close>

definition pass4 :: "DHCPv4 \<Rightarrow> event list \<Rightarrow> DHCPv4 outcome" where
  "pass4 resp es = \<lparr>returned = Some resp, dropped = False, final_resp = resp, effects = es\<rparr>"

definition responsestats_Handler4 :: "DHCPv4 \<Rightarrow> DHCPv4 \<Rightarrow> DHCPv4 outcome" where
  "responsestats_Handler4 req resp =
     (if OpCode req \<noteq> OpcodeBootRequest then pass4 resp []
      else
        (let mac = ClientHWAddr req;
             has_yiaddr = (length (YourIPAddr resp) > 0 \<and> \<not> IsUnspecified (YourIPAddr resp));
             e0 = (if MessageType4 resp = MessageTypeAck \<and> has_yiaddr
                   then [Inc dhcpv4_leases_processed_total [Lit ''all'']] else [])
                  @ [Inc dhcpv4_responses_total [MessageType4_String (MessageType4 resp)]]
         in case RelayAgentInfo req of
              None \<Rightarrow>
                (if length (GatewayIPAddr resp) = 0 \<or> IsUnspecified (GatewayIPAddr resp)
                 then pass4 resp (e0 @ [Logger (LogAllocated mac (YourIPAddr req))])
                 else pass4 resp (e0 @ [Logger (LogNoRAI (GatewayIPAddr resp) mac (YourIPAddr req))]))
            | Some rai \<Rightarrow>
                (let peerstr = GatewayIPAddr req;
                     linkstr = GetIP LinkSelectionSubOption rai;
                     intfstr = GetString AgentCircuitIDSubOption rai;
                     intfstr = (if length intfstr = 0 then
                                  (let intfstr = GetString AgentRemoteIDSubOption rai
                                   in if length intfstr = 0 then ''<unspecified>'' else intfstr)
                                else intfstr)
                 in pass4 resp (e0 @ [Inc dhcpv4_to_relays_total [],
                                      Logger (LogRelay peerstr linkstr intfstr mac (YourIPAddr req))]))))"

definition requeststats_Handler4 :: "DHCPv4 \<Rightarrow> DHCPv4 \<Rightarrow> DHCPv4 outcome" where
  "requeststats_Handler4 req resp =
     (if OpCode req \<noteq> OpcodeBootRequest then
        pass4 resp [Inc dhcpv4_requests_total [Lit ''ignored''],
                    Warningf ''not a BootRequest, ignoring %d'']
      else
        (let e0 = [Inc dhcpv4_requests_total [MessageType4_String (MessageType4 req)]];
             rai = RelayAgentInfo req;
             giaddr_invalid = (length (GatewayIPAddr req) = 0 \<or> IsUnspecified (GatewayIPAddr req))
         in if rai = None \<or> giaddr_invalid then
              (if rai \<noteq> None then
                 pass4 resp (e0 @ [Infof ''DHCPv4 request with giaddr but missing RelayAgentInfo: %s'',
                                   Inc dhcpv4_rai_missing_suboptions_total [Lit ''GatewayIPAddr''],
                                   Inc dhcpv4_from_relays_total []])
               else if \<not> giaddr_invalid then
                 pass4 resp (e0 @ [Infof ''DHCPv4 request with RelayAgentInfo but no giaddr: %s'',
                                   Inc dhcpv4_rai_missing_suboptions_total [Lit ''RelayAgentInfo''],
                                   Inc dhcpv4_from_relays_total []])
               else pass4 resp e0)
            else
              (let e1 = [Inc dhcpv4_from_relays_total []];
                   e2 = (if GetIP LinkSelectionSubOption (the rai) = None
                         then [Inc dhcpv4_rai_missing_suboptions_total [Lit ''LinkSelectionSubOption'']]
                         else []);
                   intfstr = GetString AgentCircuitIDSubOption (the rai);
                   e3 = (if length intfstr = 0 then
                           (let intfstr = GetString AgentRemoteIDSubOption (the rai)
                            in if length intfstr = 0
                               then [Inc dhcpv4_rai_missing_suboptions_total [Lit ''AgentIDSubOption'']]
                               else [])
                         else [])
               in pass4 resp (e0 @ e1 @ e2 @ e3))))"

section \<open>Notions of the specification\<close>

text \<open>
  The response association a request identifier matches: the first one, in the order of the
  response, with an equal identifier.
\<close>

definition first_match :: "iaid \<Rightarrow> IdentityAssociation list \<Rightarrow> IdentityAssociation option" where
  "first_match i response_ias = find (\<lambda>x. Id_ia x = i) response_ias"

text \<open>A request association is satisfied when its first match is allocated.\<close>

definition is_satisfied :: "IdentityAssociation list \<Rightarrow> IdentityAssociation \<Rightarrow> bool" where
  "is_satisfied response_ias r =
     (case first_match (Id_ia r) response_ias of None \<Rightarrow> False | Some x \<Rightarrow> Allocated x)"

definition unmatched :: "IdentityAssociation list \<Rightarrow> IdentityAssociation \<Rightarrow> bool" where
  "unmatched response_ias r = (first_match (Id_ia r) response_ias = None)"

text \<open>The denial marker \<^verbatim>\<open>ia_fixup\<close> builds for a request association.\<close>

definition denial :: "IdentityAssociation \<Rightarrow> IdentityAssociation" where
  "denial r = AddStatusUnavailable (New r (Id_ia r))"

text \<open>The quantifier as the specification words it, from the two counts.\<close>

definition quantifier_of :: "nat \<Rightarrow> nat \<Rightarrow> string" where
  "quantifier_of n_satisfied n_unsatisfied =
     (if n_satisfied = 0 then ''none'' else if n_unsatisfied = 0 then ''all'' else ''some'')"

text \<open>The quantifier in the order the code tests the counts.\<close>

definition counted_quantifier :: "IdentityAssociation list \<Rightarrow> IdentityAssociation list \<Rightarrow> string" where
  "counted_quantifier request_ias response_ias =
     (if length (filter (\<lambda>r. \<not> is_satisfied response_ias r) request_ias) = 0 then ''all''
      else if length (filter (is_satisfied response_ias) request_ias) = 0 then ''none''
      else ''some'')"

text \<open>The markers that reconciling a request with a response appends, as options.\<close>

definition denials :: "IdentityAssociation list \<Rightarrow> IdentityAssociation list \<Rightarrow> Option list" where
  "denials request_ias response_ias =
     map (\<lambda>r. OptPluginIA (denial r)) (filter (unmatched response_ias) request_ias)"

text \<open>
  A packet as the decoder or the server builds it: every option under one of the three
  association codes has the library's type, so that the accessors return.
\<close>

definition decoded :: "DHCPv6 \<Rightarrow> bool" where
  "decoded m = (IANA (Options m) \<noteq> None \<and> IATA (Options m) \<noteq> None \<and> IAPD (Options m) \<noteq> None)"

text \<open>
  \<open>nested n d m\<close>: the packet \<open>d\<close> is the client message \<open>m\<close> inside \<open>n\<close> relay envelopes,
  each of which yields the packet it relays.
\<close>

primrec nested :: "nat \<Rightarrow> DHCPv6 \<Rightarrow> DHCPv6 \<Rightarrow> bool" where
  "nested 0 d m = (d = m \<and> is_a_Message m)"
| "nested (Suc n) d m =
     (IsRelay d \<and> (case RelayOptions_RelayMessage (Options d) of
                     None \<Rightarrow> False
                   | Some inner \<Rightarrow> nested n inner m))"

text \<open>
  What the request handler records for a client message with the given associations: its
  type and the number of associations of each type it asks for.
\<close>

definition requested ::
    "DHCPv6 \<Rightarrow> IdentityAssociation list \<Rightarrow> IdentityAssociation list \<Rightarrow> IdentityAssociation list
     \<Rightarrow> event list" where
  "requested msg ianas iatas iapds =
     [Inc dhcpv6_requests_total [MessageType_String (MessageType msg)]]
     @ add_requested ''IA_NA'' (length ianas)
     @ add_requested ''IA_TA'' (length iatas)
     @ add_requested ''IA_PD'' (length iapds)"

subsection \<open>Sample packets\<close>

definition idA :: iaid where "idA = (0, 0, 0, 1)"
definition idB :: iaid where "idB = (0, 0, 0, 2)"
definition idC :: iaid where "idC = (0, 0, 0, 3)"

text \<open>A request for three addresses A, B and C.\<close>

definition request_abc :: "IdentityAssociation list" where
  "request_abc = [OptIANA idA 0 0 [], OptIANA idB 0 0 [], OptIANA idC 0 0 []]"

text \<open>The associations of a reply that grants A, has B without an address and says nothing of C.\<close>

definition granted_ab :: "IdentityAssociation list" where
  "granted_ab = [OptIANA idA 0 0 [OptIAAddress [1]], OptIANA idB 0 0 []]"

definition reply_ab :: DHCPv6 where
  "reply_ab = Message 7 (1, 2, 3) (map OptIA granted_ab)"

text \<open>The same reply with the denial for C appended, as \<^verbatim>\<open>ia_fixup\<close> appends it.\<close>

definition reply_abc :: DHCPv6 where
  "reply_abc = Message 7 (1, 2, 3)
     (map OptIA granted_ab @ [OptPluginIA (OptIANA idC 0 0 [OptStatusCode StatusNoAddrsAvail []])])"

text \<open>A Solicit of a client that asks for A, B and C.\<close>

definition solicit :: DHCPv6 where
  "solicit = Message 1 (1, 2, 3) (map OptIA request_abc)"

text \<open>A relay envelope around a packet: an interface identifier, then the relayed packet.\<close>

definition envelope :: "DHCPv6 \<Rightarrow> DHCPv6" where
  "envelope inner = RelayMessage 12 0 [] [] [OptGeneric 18 [1], OptRelayMsg inner]"

text \<open>A relayed DHCPv4 request with the given relay agent information, and an offer for it.\<close>

definition relayed_request :: "RelayOptions \<Rightarrow> DHCPv4" where
  "relayed_request rai =
     \<lparr>OpCode = 1, ClientHWAddr = [0, 17, 34, 51, 68, 85], YourIPAddr = [],
      GatewayIPAddr = [10, 99, 99, 1], MessageType4 = 1, RelayAgentInfo = Some rai,
      Options4 = Map.empty\<rparr>"

definition offer :: DHCPv4 where
  "offer =
     \<lparr>OpCode = 2, ClientHWAddr = [0, 17, 34, 51, 68, 85], YourIPAddr = [10, 99, 99, 7],
      GatewayIPAddr = [10, 99, 99, 1], MessageType4 = 2, RelayAgentInfo = None,
      Options4 = Map.empty\<rparr>"

lemmas sample_defs = idA_def idB_def idC_def request_abc_def granted_ab_def reply_ab_def
  reply_abc_def solicit_def

lemmas eval_defs = IANA_def IATA_def IAPD_def IAs_def Options_Get_def OptionIANA_def
  OptionIATA_def OptionIAPD_def OptionRelayMsg_def unmatched_def is_satisfied_def
  first_match_def denial_def denials_def quantifier_of_def counted_quantifier_def
  OneAddress_def Options_Add_def FromIANA_def FromIATA_def FromIAPD_def add_requested_def

section \<open>Properties of the reconciliation\<close>

lemma bytes_Compare_eq: "bytes_Compare xs ys = 0 \<longleftrightarrow> xs = ys"
  by (induction xs ys rule: bytes_Compare.induct) auto

lemma slice4_inject: "slice4 i = slice4 j \<longleftrightarrow> i = j"
  by (cases i, cases j) auto

lemma ids_equal: "bytes_Compare (slice4 i) (slice4 j) = 0 \<longleftrightarrow> i = j"
  by (simp add: bytes_Compare_eq slice4_inject)

lemma scan_response_find:
  "scan_response i response_ias s =
     (case first_match i response_ias of
        None \<Rightarrow> (False, s)
      | Some x \<Rightarrow> (True, if Allocated x then s\<lparr>satisfied := satisfied s + 1\<rparr>
                        else s\<lparr>unsatisfied := unsatisfied s + 1\<rparr>))"
  by (induction response_ias) (auto simp: first_match_def ids_equal Let_def)

lemma Options_AddOption: "Options (AddOption p opt) = Options p @ [opt]"
  by (cases p) (simp_all add: Options_Add_def)

lemma Options_foldl_AddOption: "Options (foldl AddOption p opts) = Options p @ opts"
  by (induction opts arbitrary: p) (simp_all add: Options_AddOption)

lemma is_a_Message_AddOption: "is_a_Message (AddOption p opt) = is_a_Message p"
  by (cases p) simp_all

lemma fixup_one_cases:
  "fixup_one response_ias r s =
     (if unmatched response_ias r then
        s\<lparr>unsatisfied := unsatisfied s + 1, newstatus := newstatus s + 1,
          resp_pkt := AddOption (resp_pkt s) (OptPluginIA (denial r))\<rparr>
      else if is_satisfied response_ias r then s\<lparr>satisfied := satisfied s + 1\<rparr>
      else s\<lparr>unsatisfied := unsatisfied s + 1\<rparr>)"
  by (auto simp: fixup_one_def scan_response_find unmatched_def is_satisfied_def denial_def Let_def
      split: option.splits)

text \<open>The outer loop, from any state of the counters and the packet.\<close>

lemma fixup_loop_result:
  "fixup_loop response_ias request_ias s =
     \<lparr>resp_pkt = foldl AddOption (resp_pkt s) (denials request_ias response_ias),
      satisfied = satisfied s + length (filter (is_satisfied response_ias) request_ias),
      unsatisfied = unsatisfied s + length (filter (\<lambda>r. \<not> is_satisfied response_ias r) request_ias),
      newstatus = newstatus s + length (filter (unmatched response_ias) request_ias)\<rparr>"
proof (induction request_ias arbitrary: s)
  case Nil
  show ?case by (simp add: denials_def)
next
  case (Cons r rest)
  have u: "unmatched response_ias r \<Longrightarrow> \<not> is_satisfied response_ias r"
    by (simp add: unmatched_def is_satisfied_def)
  show ?case
    by (simp add: Cons.IH fixup_one_cases u denials_def)
qed

lemma ia_fixup_result:
  "ia_fixup resp request_ias response_ias =
     (foldl AddOption resp (denials request_ias response_ias),
      counted_quantifier request_ias response_ias,
      length (filter (unmatched response_ias) request_ias))"
  by (simp add: ia_fixup_def fixup_loop_result Let_def counted_quantifier_def)

lemma count_split:
  "length (filter P xs) + length (filter (\<lambda>x. \<not> P x) xs) = length xs"
  by (induction xs) auto

lemma codes_distinct:
  "OptionIANA \<noteq> OptionIATA" "OptionIANA \<noteq> OptionIAPD" "OptionIATA \<noteq> OptionIAPD"
  "OptionIATA \<noteq> OptionIANA" "OptionIAPD \<noteq> OptionIANA" "OptionIAPD \<noteq> OptionIATA"
  by (simp_all add: OptionIANA_def OptionIATA_def OptionIAPD_def)

lemma denial_Id: "Id_ia (denial r) = Id_ia r"
  by (cases r) (simp_all add: denial_def)

lemma denial_Code: "Code (denial r) = Code r"
  by (cases r) (simp_all add: denial_def)

lemma denial_options:
  "IAOptions (denial r) =
     [OptStatusCode (if Code r = OptionIAPD then StatusNoPrefixAvail else StatusNoAddrsAvail) []]"
  by (cases r) (simp_all add: denial_def Options_Add_def codes_distinct)

lemma denial_not_Allocated: "\<not> Allocated (denial r)"
  by (cases r) (simp_all add: denial_def Options_Add_def OneAddress_def)

text \<open>The accessor returns exactly on lists of the library's type.\<close>

lemma associations_map: "associations (map OptIA ias) = Some ias"
  by (induction ias) simp_all

lemma associations_Some_D: "associations opts = Some ias \<Longrightarrow> opts = map OptIA ias"
proof (induction opts arbitrary: ias)
  case Nil
  then show ?case by simp
next
  case (Cons opt opts)
  then show ?case
    by (cases opt) (auto split: option.splits)
qed

lemma associations_Some: "associations opts = Some ias \<longleftrightarrow> opts = map OptIA ias"
  using associations_map associations_Some_D by blast

lemma IAs_Some: "IAs c opts = Some ias \<longleftrightarrow> Options_Get c opts = map OptIA ias"
  by (simp add: IAs_def associations_Some)

lemma IAs_Code: "IAs c opts = Some ias \<Longrightarrow> x \<in> set ias \<Longrightarrow> Code x = c"
proof -
  assume a: "IAs c opts = Some ias" and x: "x \<in> set ias"
  then have "OptIA x \<in> set (Options_Get c opts)" by (simp add: IAs_Some)
  then show ?thesis by (simp add: Options_Get_def)
qed

lemma Options_Get_append: "Options_Get c (xs @ ys) = Options_Get c xs @ Options_Get c ys"
  by (simp add: Options_Get_def)

lemma Options_Get_denials_same:
  "\<forall>r\<in>set request_ias. Code r = c \<Longrightarrow>
     Options_Get c (denials request_ias response_ias) = denials request_ias response_ias"
  by (auto simp: Options_Get_def denials_def denial_Code filter_id_conv)

lemma Options_Get_denials_other:
  "\<forall>r\<in>set request_ias. Code r = c' \<Longrightarrow> c \<noteq> c' \<Longrightarrow>
     Options_Get c (denials request_ias response_ias) = []"
  by (auto simp: Options_Get_def denials_def denial_Code filter_empty_conv)

lemma first_match_None: "first_match i xs = None \<longleftrightarrow> i \<notin> Id_ia ` set xs"
  by (auto simp: first_match_def find_None_iff)

lemma first_match_Some: "first_match i xs = Some x \<Longrightarrow> x \<in> set xs \<and> Id_ia x = i"
  by (auto simp: first_match_def find_Some_iff)





lemma IAs_reply_ab: "IAs OptionIANA (Options reply_ab) = Some granted_ab"
  by (simp add: sample_defs eval_defs)

lemma ia_fixup_sample: "ia_fixup reply_ab request_abc granted_ab = (reply_abc, ''some'', 1)"
  by (simp add: ia_fixup_result sample_defs eval_defs)

text \<open>
  The accessor cannot read a response that \<^verbatim>\<open>ia_fixup\<close> has patched: the marker is of the
  plugin's type, and the assertion of the library's type on it panics.
\<close>

lemma patched_response_unreadable: "IANA (Options reply_abc) = None"
  by (simp add: sample_defs eval_defs)

text \<open>
  C1 (reconciliation completeness). When \<^verbatim>\<open>ia_fixup\<close> runs on request associations of one
  type and on the associations the accessor returns for the response, every request
  identifier is found afterwards among the response's options with the code of that type:
  on an option the response had before, or on the denial marker appended for it.
\<close>

theorem reconcile_complete:
  assumes fx: "ia_fixup resp request_ias response_ias = (resp', q, n)"
    and resps: "IAs c (Options resp) = Some response_ias"
    and typed: "\<forall>r\<in>set request_ias. Code r = c"
    and mem: "r \<in> set request_ias"
  shows "\<exists>opt\<in>set (Options_Get c (Options resp')).
           Option_Id opt = Some (Id_ia r)
           \<and> (opt \<in> set (Options_Get c (Options resp)) \<or> opt = OptPluginIA (denial r))"
proof -
  have before: "Options_Get c (Options resp) = map OptIA response_ias"
    using resps by (simp add: IAs_Some)
  have "Options resp' = Options resp @ denials request_ias response_ias"
    using fx by (auto simp: ia_fixup_result Options_foldl_AddOption)
  then have after: "Options_Get c (Options resp') =
      map OptIA response_ias @ denials request_ias response_ias"
    using typed by (simp add: Options_Get_append before Options_Get_denials_same)
  show ?thesis
  proof (cases "first_match (Id_ia r) response_ias")
    case None
    then have "unmatched response_ias r" by (simp add: unmatched_def)
    then have "OptPluginIA (denial r) \<in> set (denials request_ias response_ias)"
      using mem by (simp add: denials_def)
    then have "OptPluginIA (denial r) \<in> set (Options_Get c (Options resp'))"
      by (simp add: after)
    moreover have "Option_Id (OptPluginIA (denial r)) = Some (Id_ia r)"
      by (simp add: denial_Id)
    ultimately show ?thesis by blast
  next
    case (Some x)
    then have x: "x \<in> set response_ias" "Id_ia x = Id_ia r"
      using first_match_Some by blast+
    then have "OptIA x \<in> set (Options_Get c (Options resp'))"
      and "OptIA x \<in> set (Options_Get c (Options resp))"
      by (simp_all add: after before)
    moreover have "Option_Id (OptIA x) = Some (Id_ia r)"
      using x by simp
    ultimately show ?thesis by blast
  qed
qed

theorem reconcile_complete_witness:
  "\<exists>opt\<in>set (Options_Get OptionIANA (Options reply_abc)).
      Option_Id opt = Some (Id_ia (OptIANA idC 0 0 []))
      \<and> (opt \<in> set (Options_Get OptionIANA (Options reply_ab))
         \<or> opt = OptPluginIA (denial (OptIANA idC 0 0 [])))"
proof -
  have typed: "\<forall>r\<in>set request_abc. Code r = OptionIANA"
    by (simp add: request_abc_def)
  have mem: "OptIANA idC 0 0 [] \<in> set request_abc"
    by (simp add: request_abc_def)
  show ?thesis
    by (rule reconcile_complete [OF ia_fixup_sample IAs_reply_ab typed mem])
qed

text \<open>
  C2 (quantifier). For a request that is not empty, \<^verbatim>\<open>ia_fixup\<close> returns \<open>none\<close> when no
  request association is satisfied, \<open>all\<close> when none is unsatisfied and \<open>some\<close> otherwise,
  a request association being satisfied when its first match in the response is allocated;
  the count it returns is the number of request associations with no match.
\<close>

theorem quantifier_correct:
  assumes "request_ias \<noteq> []"
  shows "snd (ia_fixup resp request_ias response_ias) =
           (quantifier_of (length (filter (is_satisfied response_ias) request_ias))
                          (length (filter (\<lambda>r. \<not> is_satisfied response_ias r) request_ias)),
            length (filter (unmatched response_ias) request_ias))"
proof -
  have "length (filter (is_satisfied response_ias) request_ias)
        + length (filter (\<lambda>r. \<not> is_satisfied response_ias r) request_ias) > 0"
    using assms by (simp add: count_split)
  then show ?thesis
    by (auto simp: ia_fixup_result quantifier_of_def counted_quantifier_def)
qed

text \<open>Requests A, B, C against a reply with A allocated and B not: \<open>some\<close>, one denial.\<close>

theorem quantifier_correct_witness:
  "snd (ia_fixup reply_ab request_abc granted_ab) = (''some'', 1)"
proof -
  have ne: "request_abc \<noteq> []" by (simp add: request_abc_def)
  show ?thesis
    using quantifier_correct [OF ne, of reply_ab granted_ab]
    by (simp add: sample_defs eval_defs)
qed

text \<open>
  C3 (denial markers). \<^verbatim>\<open>ia_fixup\<close> appends to the response one marker for each request
  association without a match, in the order of the request, and returns their number. The
  marker for \<open>r\<close> has the identifier and the type of \<open>r\<close>, grants nothing, and holds one
  status code: no prefix available for a prefix delegation, no address available otherwise.
\<close>

theorem denial_marker_shape:
  assumes "ia_fixup resp request_ias response_ias = (resp', q, n)"
  shows "Options resp' = Options resp
             @ map (\<lambda>r. OptPluginIA (denial r)) (filter (unmatched response_ias) request_ias)
         \<and> n = length (filter (unmatched response_ias) request_ias)
         \<and> Id_ia (denial r) = Id_ia r \<and> Code (denial r) = Code r
         \<and> \<not> Allocated (denial r)
         \<and> Addresses (IAOptions (denial r)) = [] \<and> Prefixes (IAOptions (denial r)) = []
         \<and> IAOptions (denial r) =
             [OptStatusCode (if Code r = OptionIAPD then StatusNoPrefixAvail
                             else StatusNoAddrsAvail) []]"
proof -
  have "Options resp' = Options resp
          @ map (\<lambda>r. OptPluginIA (denial r)) (filter (unmatched response_ias) request_ias)"
    using assms by (auto simp: ia_fixup_result Options_foldl_AddOption denials_def)
  moreover have "n = length (filter (unmatched response_ias) request_ias)"
    using assms by (simp add: ia_fixup_result)
  ultimately show ?thesis
    by (simp add: denial_Id denial_Code denial_not_Allocated denial_options)
qed

theorem denial_marker_shape_witness:
  "Options reply_abc =
     Options reply_ab @ [OptPluginIA (OptIANA idC 0 0 [OptStatusCode StatusNoAddrsAvail []])]
   \<and> denial (OptIAPD idC 5 6 [OptIAPrefix 56 [32, 1]]) = OptIAPD idC 0 0 [OptStatusCode StatusNoPrefixAvail []]
   \<and> \<not> Allocated (denial (OptIAPD idC 5 6 [OptIAPrefix 56 [32, 1]]))"
  using denial_marker_shape [OF ia_fixup_sample, of "OptIAPD idC 5 6 [OptIAPrefix 56 [32, 1]]"]
  by (simp add: sample_defs eval_defs)



section \<open>Properties of the response handler\<close>

lemma IANA_eq: "IANA = IAs OptionIANA"
  by (rule ext) (simp add: IANA_def)

lemma IATA_eq: "IATA = IAs OptionIATA"
  by (rule ext) (simp add: IATA_def)

lemma IAPD_eq: "IAPD = IAs OptionIAPD"
  by (rule ext) (simp add: IAPD_def)

lemma From_eq: "FromIANA = (\<lambda>x. x)" "FromIATA = (\<lambda>x. x)" "FromIAPD = (\<lambda>x. x)"
  by (rule ext, simp add: FromIANA_def FromIATA_def FromIAPD_def)+

lemma length_denials: "length (denials reqs resps) = length (filter (unmatched resps) reqs)"
  by (simp add: denials_def)

text \<open>One block, when both accessors return.\<close>

lemma fixup_block_result:
  assumes "IAs c (Options req) = Some reqs" and "IAs c (Options resp) = Some resps"
  shows "fixup_block (IAs c) (\<lambda>x. x) name req resp a =
           Some (foldl AddOption resp (denials reqs resps),
                 (if reqs = [] then []
                  else [Inc dhcpv6_ias_processed_total [Lit name, Lit (counted_quantifier reqs resps)]]),
                 a + length (denials reqs resps))"
  using assms by (simp add: fixup_block_def ia_fixup_result length_denials denials_def)

text \<open>The markers of one type do not change what the next block reads for another type.\<close>

lemma IAs_after_denials:
  assumes "\<forall>r\<in>set reqs. Code r = c'" and "c \<noteq> c'"
  shows "IAs c (Options (foldl AddOption p (denials reqs resps))) = IAs c (Options p)"
  by (simp add: IAs_def Options_foldl_AddOption Options_Get_append
      Options_Get_denials_other [OF assms])

lemma Handler6_runs:
  assumes m: "is_a_Message req" "is_a_Message resp"
    and na: "IAs OptionIANA (Options req) = Some qa" "IAs OptionIANA (Options resp) = Some ra"
    and ta: "IAs OptionIATA (Options req) = Some qt" "IAs OptionIATA (Options resp) = Some rt"
    and pd: "IAs OptionIAPD (Options req) = Some qp" "IAs OptionIAPD (Options resp) = Some rp"
  shows "\<exists>es. responsestats_Handler6 req resp =
           Inr \<lparr>returned = Some (foldl AddOption resp (denials qa ra @ denials qt rt @ denials qp rp)),
                dropped = False,
                final_resp = foldl AddOption resp (denials qa ra @ denials qt rt @ denials qp rp),
                effects = es\<rparr>"
proof -
  let ?r1 = "foldl AddOption resp (denials qa ra)"
  let ?r2 = "foldl AddOption ?r1 (denials qt rt)"
  have ca: "\<forall>r\<in>set qa. Code r = OptionIANA" using na(1) by (auto dest: IAs_Code)
  have ct: "\<forall>r\<in>set qt. Code r = OptionIATA" using ta(1) by (auto dest: IAs_Code)
  have t1: "IAs OptionIATA (Options ?r1) = Some rt"
    using ta(2) by (simp add: IAs_after_denials [OF ca] codes_distinct)
  have p1: "IAs OptionIAPD (Options ?r1) = Some rp"
    using pd(2) by (simp add: IAs_after_denials [OF ca] codes_distinct)
  have p2: "IAs OptionIAPD (Options ?r2) = Some rp"
    using p1 by (simp add: IAs_after_denials [OF ct] codes_distinct)
  show ?thesis
    using m
    by (simp add: responsestats_Handler6_def Let_def IANA_eq IATA_eq IAPD_eq From_eq
        fixup_block_result [OF na] fixup_block_result [OF ta(1) t1]
        fixup_block_result [OF pd(1) p2])
qed

lemma Options_Get_three:
  assumes "\<forall>r\<in>set qa. Code r = OptionIANA" "\<forall>r\<in>set qt. Code r = OptionIATA"
    "\<forall>r\<in>set qp. Code r = OptionIAPD"
  shows "Options_Get OptionIANA (denials qa ra @ denials qt rt @ denials qp rp) = denials qa ra"
    and "Options_Get OptionIATA (denials qa ra @ denials qt rt @ denials qp rp) = denials qt rt"
    and "Options_Get OptionIAPD (denials qa ra @ denials qt rt @ denials qp rp) = denials qp rp"
  by (simp_all add: Options_Get_append
      Options_Get_denials_same [OF assms(1)] Options_Get_denials_same [OF assms(2)]
      Options_Get_denials_same [OF assms(3)]
      Options_Get_denials_other [OF assms(1)] Options_Get_denials_other [OF assms(2)]
      Options_Get_denials_other [OF assms(3)] codes_distinct)

lemma ids_of_library: "map Option_Id (map OptIA ias) = map Some (map Id_ia ias)"
  by simp

lemma ids_of_denials:
  "map Option_Id (denials reqs resps) = map Some (map Id_ia (filter (unmatched resps) reqs))"
  by (simp add: denials_def denial_Id o_def)

lemma distinct_map_Some: "distinct (map Some xs) = distinct xs"
  by (simp add: distinct_map)

lemma unmatched_iff:
  "unmatched resps r \<longleftrightarrow> Some (Id_ia r) \<notin> Option_Id ` set (map OptIA resps)"
  by (auto simp: unmatched_def first_match_None image_iff)

lemma distinct_after_denials:
  assumes "distinct (map Id_ia reqs)" "distinct (map Id_ia resps)"
  shows "distinct (map Id_ia resps @ map Id_ia (filter (unmatched resps) reqs))"
proof -
  have d: "distinct (map Id_ia (filter (unmatched resps) reqs))"
    using assms(1) by (rule distinct_map_filter)
  have disj: "set (map Id_ia resps) \<inter> set (map Id_ia (filter (unmatched resps) reqs)) = {}"
    by (auto simp: unmatched_def first_match_None)
  show ?thesis
    unfolding distinct_append using assms(2) d disj by blast
qed

text \<open>One type of association through the handler, the other two being readable.\<close>

lemma Handler6_one_type:
  assumes m: "is_a_Message req" "is_a_Message resp"
    and dec: "decoded req" "decoded resp"
    and c: "c \<in> {OptionIANA, OptionIATA, OptionIAPD}"
  shows "\<exists>out reqs resps.
           responsestats_Handler6 req resp = Inr out
           \<and> IAs c (Options req) = Some reqs \<and> IAs c (Options resp) = Some resps
           \<and> Options_Get c (Options (final_resp out)) = map OptIA resps @ denials reqs resps"
proof -
  obtain qa qt qp where q: "IAs OptionIANA (Options req) = Some qa"
      "IAs OptionIATA (Options req) = Some qt" "IAs OptionIAPD (Options req) = Some qp"
    using dec(1) by (auto simp: decoded_def IANA_def IATA_def IAPD_def)
  obtain ra rt rp where r: "IAs OptionIANA (Options resp) = Some ra"
      "IAs OptionIATA (Options resp) = Some rt" "IAs OptionIAPD (Options resp) = Some rp"
    using dec(2) by (auto simp: decoded_def IANA_def IATA_def IAPD_def)
  let ?fin = "foldl AddOption resp (denials qa ra @ denials qt rt @ denials qp rp)"
  obtain es where run: "responsestats_Handler6 req resp =
      Inr \<lparr>returned = Some ?fin, dropped = False, final_resp = ?fin, effects = es\<rparr>"
    using Handler6_runs [OF m q(1) r(1) q(2) r(2) q(3) r(3)] by blast
  have codes: "\<forall>r\<in>set qa. Code r = OptionIANA" "\<forall>r\<in>set qt. Code r = OptionIATA"
    "\<forall>r\<in>set qp. Code r = OptionIAPD"
    using q by (auto dest: IAs_Code)
  have g: "Options_Get c' (Options ?fin) =
      Options_Get c' (Options resp) @ Options_Get c' (denials qa ra @ denials qt rt @ denials qp rp)"
    for c'
    by (simp only: Options_foldl_AddOption Options_Get_append)
  have before: "Options_Get OptionIANA (Options resp) = map OptIA ra"
    "Options_Get OptionIATA (Options resp) = map OptIA rt"
    "Options_Get OptionIAPD (Options resp) = map OptIA rp"
    using r by (simp_all add: IAs_Some)
  consider "c = OptionIANA" | "c = OptionIATA" | "c = OptionIAPD" using c by blast
  then show ?thesis
  proof cases
    case 1
    have "Options_Get c (Options ?fin) = map OptIA ra @ denials qa ra"
      unfolding 1 g Options_Get_three(1) [OF codes] before by (rule refl)
    then show ?thesis using run q(1) r(1) 1 by auto
  next
    case 2
    have "Options_Get c (Options ?fin) = map OptIA rt @ denials qt rt"
      unfolding 2 g Options_Get_three(2) [OF codes] before by (rule refl)
    then show ?thesis using run q(2) r(2) 2 by auto
  next
    case 3
    have "Options_Get c (Options ?fin) = map OptIA rp @ denials qp rp"
      unfolding 3 g Options_Get_three(3) [OF codes] before by (rule refl)
    then show ?thesis using run q(3) r(3) 3 by auto
  qed
qed

lemma Handler6_sample:
  "responsestats_Handler6 solicit reply_ab =
     Inr \<lparr>returned = Some reply_abc, dropped = False, final_resp = reply_abc,
          effects = [Inc dhcpv6_responses_total [MessageType_String 7],
                     Inc dhcpv6_ias_processed_total [Lit ''IA_NA'', Lit ''some''],
                     Logger (LogAdded 1 reply_abc)]\<rparr>"
  by (simp add: responsestats_Handler6_def fixup_block_def ia_fixup_result sample_defs eval_defs)

text \<open>
  C7 (no duplicate after reconciliation). For a request and a response that are client
  messages as the decoder and the server build them, and a type of association whose
  identifiers are unique in the request and unique in the response, the handler returns,
  and the identifiers under the code of that type are unique in the response it leaves:
  the options under the code are the ones the response had, followed by a marker for each
  request association whose identifier the response did not have.
\<close>

theorem no_duplicate_after_reconcile:
  assumes "is_a_Message req" "is_a_Message resp" "decoded req" "decoded resp"
    and "c \<in> {OptionIANA, OptionIATA, OptionIAPD}"
    and "distinct (map Option_Id (Options_Get c (Options req)))"
    and "distinct (map Option_Id (Options_Get c (Options resp)))"
  shows "\<exists>out reqs.
           responsestats_Handler6 req resp = Inr out
           \<and> IAs c (Options req) = Some reqs
           \<and> distinct (map Option_Id (Options_Get c (Options (final_resp out))))
           \<and> Options_Get c (Options (final_resp out)) =
               Options_Get c (Options resp)
               @ map (\<lambda>r. OptPluginIA (denial r))
                   (filter (\<lambda>r. Some (Id_ia r) \<notin> Option_Id ` set (Options_Get c (Options resp)))
                      reqs)"
proof -
  obtain out reqs resps where run: "responsestats_Handler6 req resp = Inr out"
    and q: "IAs c (Options req) = Some reqs" and r: "IAs c (Options resp) = Some resps"
    and fin: "Options_Get c (Options (final_resp out)) = map OptIA resps @ denials reqs resps"
    using Handler6_one_type [OF assms(1-5)] by blast
  have gq: "Options_Get c (Options req) = map OptIA reqs" using q by (simp add: IAs_Some)
  have gr: "Options_Get c (Options resp) = map OptIA resps" using r by (simp add: IAs_Some)
  have dq: "distinct (map Id_ia reqs)"
    using assms(6) unfolding gq ids_of_library distinct_map_Some .
  have dr: "distinct (map Id_ia resps)"
    using assms(7) unfolding gr ids_of_library distinct_map_Some .
  have "map Option_Id (Options_Get c (Options (final_resp out))) =
      map Some (map Id_ia resps @ map Id_ia (filter (unmatched resps) reqs))"
    unfolding fin map_append ids_of_library ids_of_denials by (rule refl)
  then have d: "distinct (map Option_Id (Options_Get c (Options (final_resp out))))"
    using distinct_after_denials [OF dq dr] by (simp only: distinct_map_Some)
  have u: "unmatched resps = (\<lambda>r. Some (Id_ia r) \<notin> Option_Id ` set (Options_Get c (Options resp)))"
    unfolding gr by (rule ext) (rule unmatched_iff)
  have "Options_Get c (Options (final_resp out)) =
      Options_Get c (Options resp)
      @ map (\<lambda>r. OptPluginIA (denial r))
          (filter (\<lambda>r. Some (Id_ia r) \<notin> Option_Id ` set (Options_Get c (Options resp))) reqs)"
    by (simp add: fin denials_def u gr)
  then show ?thesis using run q d by blast
qed

theorem no_duplicate_after_reconcile_witness:
  "\<exists>out reqs.
      responsestats_Handler6 solicit reply_ab = Inr out
      \<and> IAs OptionIANA (Options solicit) = Some reqs
      \<and> distinct (map Option_Id (Options_Get OptionIANA (Options (final_resp out))))
      \<and> Options_Get OptionIANA (Options (final_resp out)) =
          Options_Get OptionIANA (Options reply_ab)
          @ map (\<lambda>r. OptPluginIA (denial r))
              (filter (\<lambda>r. Some (Id_ia r)
                            \<notin> Option_Id ` set (Options_Get OptionIANA (Options reply_ab)))
                 reqs)"
proof -
  have m: "is_a_Message solicit" "is_a_Message reply_ab"
    by (simp_all add: sample_defs)
  have dec: "decoded solicit" "decoded reply_ab"
    by (simp_all add: decoded_def sample_defs eval_defs)
  have c: "OptionIANA \<in> {OptionIANA, OptionIATA, OptionIAPD}"
    by simp
  have d: "distinct (map Option_Id (Options_Get OptionIANA (Options solicit)))"
    "distinct (map Option_Id (Options_Get OptionIANA (Options reply_ab)))"
    by (simp_all add: sample_defs eval_defs)
  show ?thesis
    by (rule no_duplicate_after_reconcile [OF m dec c d])
qed

text \<open>
  The handler does not run a second time on the response it has patched: reading the
  response's associations panics on the marker.
\<close>

lemma patched_response_panics:
  "responsestats_Handler6 solicit reply_abc =
     Inl (Panic [Inc dhcpv6_responses_total [MessageType_String 7]] reply_abc)"
  by (simp add: responsestats_Handler6_def fixup_block_def sample_defs eval_defs)

text \<open>
  C8 (shape mismatch). When the request or the response is not a client message, the
  response handler increments the \<open>error\<close> label, returns nothing with the stop flag set,
  and leaves the response as it was: no reconciliation runs and nothing is appended.
\<close>

theorem shape_mismatch_drop:
  assumes "\<not> is_a_Message req \<or> \<not> is_a_Message resp"
  shows "responsestats_Handler6 req resp =
           Inr \<lparr>returned = None, dropped = True, final_resp = resp,
                effects = [Inc dhcpv6_responses_total [Lit ''error''],
                           Errorf (if is_a_Message resp then ''request message format bug: %v''
                                   else ''response message format bug: %v'')]\<rparr>"
  using assms by (auto simp: responsestats_Handler6_def)

theorem shape_mismatch_drop_witness:
  "responsestats_Handler6 (envelope solicit) reply_ab =
     Inr \<lparr>returned = None, dropped = True, final_resp = reply_ab,
          effects = [Inc dhcpv6_responses_total [Lit ''error''],
                     Errorf ''request message format bug: %v'']\<rparr>
   \<and> responsestats_Handler6 solicit (envelope reply_ab) =
     Inr \<lparr>returned = None, dropped = True, final_resp = envelope reply_ab,
          effects = [Inc dhcpv6_responses_total [Lit ''error''],
                     Errorf ''response message format bug: %v'']\<rparr>"
proof -
  have a: "\<not> is_a_Message (envelope solicit) \<or> \<not> is_a_Message reply_ab"
    by (simp add: envelope_def)
  have b: "\<not> is_a_Message solicit \<or> \<not> is_a_Message (envelope reply_ab)"
    by (simp add: envelope_def)
  show ?thesis
    using shape_mismatch_drop [OF a] shape_mismatch_drop [OF b]
    by (simp add: envelope_def reply_ab_def)
qed

section \<open>Properties of the request handler\<close>

lemma IsRelay_iff: "IsRelay d \<longleftrightarrow> \<not> is_a_Message d"
  by (cases d) simp_all

lemma is_a_RelayMessage_iff: "is_a_RelayMessage d \<longleftrightarrow> IsRelay d"
  by (cases d) simp_all

lemma nested_Suc_decap:
  "nested (Suc n) d m \<Longrightarrow> \<exists>inner. DecapsulateRelay d = Inr inner \<and> nested n inner m"
  by (auto simp: DecapsulateRelay_def split: option.splits)

lemma nested_relay: "nested n d m \<Longrightarrow> IsRelay d \<longleftrightarrow> 0 < n"
  by (cases n) (auto simp: IsRelay_iff)

text \<open>After \<open>k\<close> single decapsulations of a chain of \<open>n\<close>, a chain of \<open>n - k\<close> is left.\<close>

lemma nested_upto_left:
  "nested n d m \<Longrightarrow> k \<le> n \<Longrightarrow> \<exists>d'. decapsulate_upto k d = Inr d' \<and> nested (n - k) d' m"
proof (induction k arbitrary: n d)
  case 0
  then show ?case by simp
next
  case (Suc k)
  then obtain n' where n: "n = Suc n'" by (cases n) auto
  then obtain inner where i: "DecapsulateRelay d = Inr inner" "nested n' inner m"
    using Suc.prems nested_Suc_decap by blast
  have "k \<le> n'" using Suc.prems n by simp
  then obtain d' where "decapsulate_upto k inner = Inr d'" "nested (n' - k) d' m"
    using Suc.IH [OF i(2)] by blast
  then show ?case using i n by simp
qed

lemma nested_upto: "nested n d m \<Longrightarrow> decapsulate_upto n d = Inr m"
  using nested_upto_left [of n d m n] by simp

lemma nested_upto_fewer:
  "nested n d m \<Longrightarrow> k < n \<Longrightarrow> \<exists>d'. decapsulate_upto k d = Inr d' \<and> IsRelay d'"
proof -
  assume a: "nested n d m" and k: "k < n"
  then obtain d' where d': "decapsulate_upto k d = Inr d'" "nested (n - k) d' m"
    using nested_upto_left [of n d m k] by auto
  then have "IsRelay d'" using k nested_relay [of "n - k" d' m] by simp
  then show ?thesis using d' by blast
qed

text \<open>Index -1 stops on the innermost envelope, one level above the client message.\<close>

lemma nested_last:
  "nested (Suc n) d m \<Longrightarrow>
     \<exists>d'. decapsulate_last d = Inr d' \<and> decapsulate_upto n d = Inr d' \<and> nested (Suc 0) d' m"
proof (induction n arbitrary: d)
  case 0
  then obtain inner where i: "DecapsulateRelay d = Inr inner" "nested 0 inner m"
    using nested_Suc_decap by blast
  then have "\<not> IsRelay inner" by (simp add: IsRelay_iff)
  then have "decapsulate_last d = Inr d"
    using i by (subst decapsulate_last.simps) simp
  then show ?case using 0 by simp
next
  case (Suc n)
  then obtain inner where i: "DecapsulateRelay d = Inr inner" "nested (Suc n) inner m"
    using nested_Suc_decap by blast
  then have "IsRelay inner" by simp
  then have "decapsulate_last d = decapsulate_last inner"
    using i by (subst decapsulate_last.simps) simp
  then show ?case using Suc.IH [OF i(2)] i(1) by simp
qed

lemma nested_inner: "nested (Suc n) d m \<Longrightarrow> GetInnerMessage d = Inr m"
proof (induction n arbitrary: d)
  case 0
  then obtain inner where i: "DecapsulateRelay d = Inr inner" "nested 0 inner m"
    using nested_Suc_decap by blast
  then show ?case by (subst GetInnerMessage.simps) simp
next
  case (Suc n)
  then obtain inner where i: "DecapsulateRelay d = Inr inner" "nested (Suc n) inner m"
    using nested_Suc_decap by blast
  then have "\<not> is_a_Message inner" by (simp add: IsRelay_iff [symmetric])
  then have "GetInnerMessage d = GetInnerMessage inner"
    using i by (subst GetInnerMessage.simps) simp
  then show ?case using Suc.IH [OF i(2)] by simp
qed

text \<open>The two calls of the handler on a chain: all levels but one, then the last one.\<close>

lemma nested_calls:
  assumes "nested (Suc n) d m"
  shows "\<exists>d'. DecapsulateRelayIndex d (- 1) = Inr d' \<and> decapsulate_upto n d = Inr d'
              \<and> is_a_RelayMessage d' \<and> GetInnerMessage d' = Inr m"
proof -
  have r: "IsRelay d" using assms by simp
  obtain d' where l: "decapsulate_last d = Inr d'" "decapsulate_upto n d = Inr d'"
    and n1: "nested (Suc 0) d' m"
    using nested_last [OF assms] by blast
  have "is_a_RelayMessage d'" using n1 by (simp add: is_a_RelayMessage_iff)
  moreover have "GetInnerMessage d' = Inr m" using n1 by (rule nested_inner)
  moreover have "DecapsulateRelayIndex d (- 1) = Inr d'"
    using r l(1) by (simp add: DecapsulateRelayIndex_def)
  ultimately show ?thesis using l(2) by blast
qed

lemma Handler6_nested:
  assumes "nested (Suc n) d m"
    and "IANA (Options m) = Some ianas" "IATA (Options m) = Some iatas"
    "IAPD (Options m) = Some iapds"
  shows "requeststats_Handler6 d resp =
           Inr \<lparr>returned = Some resp, dropped = False, final_resp = resp,
                effects = Inc dhcpv6_from_relays_total [] # requested m ianas iatas iapds\<rparr>"
proof -
  have r: "IsRelay d" using assms(1) by simp
  obtain d' where c: "DecapsulateRelayIndex d (- 1) = Inr d'" "is_a_RelayMessage d'"
      "GetInnerMessage d' = Inr m"
    using nested_calls [OF assms(1)] by blast
  show ?thesis
    using r by (simp add: requeststats_Handler6_def c assms(2-4) Let_def requested_def)
qed

text \<open>A client message that no relay wrapped: the handler stops on it.\<close>

lemma Handler6_plain:
  "requeststats_Handler6 (Message t x opts) resp =
     Inr \<lparr>returned = None, dropped = True, final_resp = resp,
          effects = [Inc dhcpv6_requests_total [Lit ''error''],
                     Errorf ''relay message format bug: %v'']\<rparr>"
  by (simp add: requeststats_Handler6_def DecapsulateRelayIndex_def stop6_def)

lemma nested_envelopes: "is_a_Message m \<Longrightarrow> nested n ((envelope ^^ n) m) m"
  by (induction n) (simp_all add: envelope_def RelayOptions_RelayMessage_def Options_GetOne_def
      Options_Get_def OptionRelayMsg_def)

lemma solicit_associations:
  "IANA (Options solicit) = Some request_abc" "IATA (Options solicit) = Some []"
  "IAPD (Options solicit) = Some []"
  by (simp_all add: sample_defs eval_defs)

text \<open>
  C4 (a client message without an envelope). The library's unwrapping returns a client
  message as it is, without an error. The request handler then asserts that what it got
  is a relay message, which a client message is not: it records \<open>error\<close> and sets the stop
  flag, where the specification has it classify the message by its type. Evaluated on a
  Solicit.
\<close>

theorem plain_request_is_dropped:
  "DecapsulateRelayIndex solicit (- 1) = Inr solicit
   \<and> requeststats_Handler6 solicit reply_ab =
     Inr \<lparr>returned = None, dropped = True, final_resp = reply_ab,
          effects = [Inc dhcpv6_requests_total [Lit ''error''],
                     Errorf ''relay message format bug: %v'']\<rparr>"
  by (simp add: solicit_def Handler6_plain DecapsulateRelayIndex_def)

text \<open>
  C5, as the code has it. The handler takes no maximum depth. A client message inside any
  number \<open>n > 0\<close> of relay envelopes is unwrapped to that client message in exactly \<open>n\<close>
  single decapsulations: \<open>n\<close> of them give the client message and any fewer give a relay
  message. The handler makes them in two calls, \<open>n - 1\<close> levels by
  \<^verbatim>\<open>DecapsulateRelayIndex\<close> with index -1 and the last by \<^verbatim>\<open>GetInnerMessage\<close>; the exchange
  is not stopped, and the type and the associations of the client message (a decoded one,
  whose associations can be read) are recorded.
\<close>

theorem unwrap_any_depth:
  assumes "nested n d m" and "0 < n"
    and "IANA (Options m) = Some ianas" "IATA (Options m) = Some iatas"
    "IAPD (Options m) = Some iapds"
  shows "requeststats_Handler6 d resp =
           Inr \<lparr>returned = Some resp, dropped = False, final_resp = resp,
                effects = Inc dhcpv6_from_relays_total [] # requested m ianas iatas iapds\<rparr>
         \<and> decapsulate_upto n d = Inr m
         \<and> (\<forall>k<n. \<exists>d'. decapsulate_upto k d = Inr d' \<and> IsRelay d' \<and> d' \<noteq> m)
         \<and> (\<exists>d'. DecapsulateRelayIndex d (- 1) = Inr d' \<and> decapsulate_upto (n - 1) d = Inr d'
                  \<and> GetInnerMessage d' = Inr m)"
proof -
  obtain j where j: "n = Suc j" using assms(2) by (cases n) auto
  have h: "requeststats_Handler6 d resp =
           Inr \<lparr>returned = Some resp, dropped = False, final_resp = resp,
                effects = Inc dhcpv6_from_relays_total [] # requested m ianas iatas iapds\<rparr>"
    using Handler6_nested assms(1,3-5) j by blast
  have full: "decapsulate_upto n d = Inr m"
    using assms(1) by (rule nested_upto)
  have msg: "is_a_Message m"
    using assms(1) nested_upto_left [of n d m n] by auto
  have fewer: "\<forall>k<n. \<exists>d'. decapsulate_upto k d = Inr d' \<and> IsRelay d' \<and> d' \<noteq> m"
  proof (intro allI impI)
    fix k assume "k < n"
    then obtain d' where d': "decapsulate_upto k d = Inr d'" "IsRelay d'"
      using nested_upto_fewer [OF assms(1)] by blast
    then have "d' \<noteq> m" using msg by (auto simp: IsRelay_iff)
    then show "\<exists>d'. decapsulate_upto k d = Inr d' \<and> IsRelay d' \<and> d' \<noteq> m"
      using d' by blast
  qed
  have calls: "\<exists>d'. DecapsulateRelayIndex d (- 1) = Inr d' \<and> decapsulate_upto (n - 1) d = Inr d'
                  \<and> GetInnerMessage d' = Inr m"
    using nested_calls [of j d m] assms(1) j by auto
  show ?thesis
    using h full fewer calls by (intro conjI)
qed

theorem unwrap_any_depth_witness:
  "requeststats_Handler6 (envelope (envelope (envelope solicit))) reply_ab =
     Inr \<lparr>returned = Some reply_ab, dropped = False, final_resp = reply_ab,
          effects = [Inc dhcpv6_from_relays_total [],
                     Inc dhcpv6_requests_total [MessageType_String 1],
                     Add dhcpv6_requested_ias_total [Lit ''IA_NA''] 3]\<rparr>
   \<and> decapsulate_upto 3 (envelope (envelope (envelope solicit))) = Inr solicit
   \<and> decapsulate_upto 2 (envelope (envelope (envelope solicit))) = Inr (envelope solicit)
   \<and> DecapsulateRelayIndex (envelope (envelope (envelope solicit))) (- 1) = Inr (envelope solicit)
   \<and> GetInnerMessage (envelope solicit) = Inr solicit"
proof -
  have n: "nested 3 (envelope (envelope (envelope solicit))) solicit"
    using nested_envelopes [of solicit 3] by (simp add: solicit_def numeral_3_eq_3)
  have p: "(0::nat) < 3" by simp
  have two: "decapsulate_upto 2 (envelope (envelope (envelope solicit))) = Inr (envelope solicit)"
    unfolding numeral_2_eq_2
    by (simp add: DecapsulateRelay_def envelope_def RelayOptions_RelayMessage_def
        Options_GetOne_def Options_Get_def OptionRelayMsg_def)
  show ?thesis
    using unwrap_any_depth [OF n p solicit_associations, of reply_ab] two
    by (auto simp: requested_def solicit_def request_abc_def add_requested_def)
qed

text \<open>
  C5, as the specification states it, fails: a Solicit inside 33 envelopes, deeper than the
  hop limit of the protocol (8, formerly 32), is unwrapped and the exchange goes on.
\<close>

theorem deep_chain_accepted:
  "nested 33 ((envelope ^^ 33) solicit) solicit
   \<and> requeststats_Handler6 ((envelope ^^ 33) solicit) reply_ab =
     Inr \<lparr>returned = Some reply_ab, dropped = False, final_resp = reply_ab,
          effects = [Inc dhcpv6_from_relays_total [],
                     Inc dhcpv6_requests_total [MessageType_String 1],
                     Add dhcpv6_requested_ias_total [Lit ''IA_NA''] 3]\<rparr>"
proof -
  have m: "is_a_Message solicit" by (simp add: solicit_def)
  have n: "nested (Suc 32) ((envelope ^^ Suc 32) solicit) solicit"
    using m by (rule nested_envelopes)
  have e: "(33::nat) = Suc 32" by simp
  have r: "requested solicit request_abc [] [] =
      [Inc dhcpv6_requests_total [MessageType_String 1],
       Add dhcpv6_requested_ias_total [Lit ''IA_NA''] 3]"
    by (simp add: requested_def solicit_def request_abc_def add_requested_def)
  show ?thesis
    unfolding e using n Handler6_nested [OF n solicit_associations, of reply_ab]
    by (simp only: r simp_thms)
qed

section \<open>Properties of the DHCPv4 handlers\<close>

text \<open>
  C9, as the code has it. For a boot request with relay agent information, the line the
  response handler logs names the circuit id when it is not empty, else the remote id when
  that is not empty, else the sentinel \<^verbatim>\<open><unspecified>\<close>. The request handler reports the
  interface identifier as missing, under the label \<^verbatim>\<open>AgentIDSubOption\<close>, exactly when both
  are empty, provided the gateway address of the request is set; when it is not set, the
  handler returns before it looks at the identifiers and makes no such report.
\<close>

theorem interface_label:
  assumes boot: "OpCode req = OpcodeBootRequest"
    and rai: "RelayAgentInfo req = Some rai"
  shows "last (effects (responsestats_Handler4 req resp)) =
           Logger (LogRelay (GatewayIPAddr req) (GetIP LinkSelectionSubOption rai)
             (if GetString AgentCircuitIDSubOption rai \<noteq> []
              then GetString AgentCircuitIDSubOption rai
              else if GetString AgentRemoteIDSubOption rai \<noteq> []
              then GetString AgentRemoteIDSubOption rai
              else ''<unspecified>'')
             (ClientHWAddr req) (YourIPAddr req))
         \<and> (length (GatewayIPAddr req) \<noteq> 0 \<and> \<not> IsUnspecified (GatewayIPAddr req) \<longrightarrow>
              (Inc dhcpv4_rai_missing_suboptions_total [Lit ''AgentIDSubOption'']
                 \<in> set (effects (requeststats_Handler4 req resp))
               \<longleftrightarrow> GetString AgentCircuitIDSubOption rai = []
                   \<and> GetString AgentRemoteIDSubOption rai = []))
         \<and> (length (GatewayIPAddr req) = 0 \<or> IsUnspecified (GatewayIPAddr req) \<longrightarrow>
              effects (requeststats_Handler4 req resp) =
                [Inc dhcpv4_requests_total [MessageType4_String (MessageType4 req)],
                 Infof ''DHCPv4 request with giaddr but missing RelayAgentInfo: %s'',
                 Inc dhcpv4_rai_missing_suboptions_total [Lit ''GatewayIPAddr''],
                 Inc dhcpv4_from_relays_total []])"
  using assms
  by (auto simp: responsestats_Handler4_def requeststats_Handler4_def pass4_def Let_def)

text \<open>
  Circuit id empty and remote id \<open>eth0\<close>; then both empty; then both empty and no gateway
  address.
\<close>

theorem interface_label_witness:
  "last (effects (responsestats_Handler4 (relayed_request [AgentRemoteIDSubOption \<mapsto> ''eth0'']) offer))
     = Logger (LogRelay [10, 99, 99, 1] None ''eth0'' [0, 17, 34, 51, 68, 85] [])
   \<and> Inc dhcpv4_rai_missing_suboptions_total [Lit ''AgentIDSubOption'']
       \<notin> set (effects (requeststats_Handler4 (relayed_request [AgentRemoteIDSubOption \<mapsto> ''eth0'']) offer))
   \<and> last (effects (responsestats_Handler4 (relayed_request Map.empty) offer))
     = Logger (LogRelay [10, 99, 99, 1] None ''<unspecified>'' [0, 17, 34, 51, 68, 85] [])
   \<and> Inc dhcpv4_rai_missing_suboptions_total [Lit ''AgentIDSubOption'']
       \<in> set (effects (requeststats_Handler4 (relayed_request Map.empty) offer))
   \<and> effects (requeststats_Handler4 ((relayed_request Map.empty)\<lparr>GatewayIPAddr := [0, 0, 0, 0]\<rparr>) offer) =
       [Inc dhcpv4_requests_total [MessageType4_String 1],
        Infof ''DHCPv4 request with giaddr but missing RelayAgentInfo: %s'',
        Inc dhcpv4_rai_missing_suboptions_total [Lit ''GatewayIPAddr''],
        Inc dhcpv4_from_relays_total []]"
proof -
  have boot: "OpCode (relayed_request r) = OpcodeBootRequest" for r
    by (simp add: relayed_request_def OpcodeBootRequest_def)
  have rai: "RelayAgentInfo (relayed_request r) = Some r" for r
    by (simp add: relayed_request_def)
  have gw: "GatewayIPAddr (relayed_request r) = [10, 99, 99, 1]" for r
    by (simp add: relayed_request_def)
  have mac: "ClientHWAddr (relayed_request r) = [0, 17, 34, 51, 68, 85]" for r
    by (simp add: relayed_request_def)
  have yi: "YourIPAddr (relayed_request r) = []" for r
    by (simp add: relayed_request_def)
  have boot0: "OpCode ((relayed_request r)\<lparr>GatewayIPAddr := [0, 0, 0, 0]\<rparr>) = OpcodeBootRequest" for r
    by (simp add: relayed_request_def OpcodeBootRequest_def)
  have rai0: "RelayAgentInfo ((relayed_request r)\<lparr>GatewayIPAddr := [0, 0, 0, 0]\<rparr>) = Some r" for r
    by (simp add: relayed_request_def)
  have t: "MessageType4 ((relayed_request r)\<lparr>GatewayIPAddr := [0, 0, 0, 0]\<rparr>) = 1" for r
    by (simp add: relayed_request_def)
  show ?thesis
    using interface_label [OF boot rai, of "[AgentRemoteIDSubOption \<mapsto> ''eth0'']" offer]
      interface_label [OF boot rai, of Map.empty offer]
      interface_label [OF boot0 rai0, of Map.empty offer]
    by (simp add: gw mac yi t IsUnspecified_def GetString_def GetIP_def AgentCircuitIDSubOption_def
        AgentRemoteIDSubOption_def LinkSelectionSubOption_def)
qed

text \<open>
  C9, as the specification states it, fails. A boot request has relay agent information
  with neither a circuit id nor a remote id and the gateway address 0.0.0.0: the request
  handler reports the gateway address and returns, and no report names the interface
  identifier. The sentinel of the response handler is \<^verbatim>\<open><unspecified>\<close>, brackets
  included, and the label of the report, where it is made, is \<^verbatim>\<open>AgentIDSubOption\<close>.
\<close>

theorem interface_report_skipped:
  "GetString AgentCircuitIDSubOption Map.empty = []
   \<and> GetString AgentRemoteIDSubOption Map.empty = []
   \<and> effects (requeststats_Handler4 ((relayed_request Map.empty)\<lparr>GatewayIPAddr := [0, 0, 0, 0]\<rparr>) offer) =
       [Inc dhcpv4_requests_total [MessageType4_String 1],
        Infof ''DHCPv4 request with giaddr but missing RelayAgentInfo: %s'',
        Inc dhcpv4_rai_missing_suboptions_total [Lit ''GatewayIPAddr''],
        Inc dhcpv4_from_relays_total []]
   \<and> Inc dhcpv4_rai_missing_suboptions_total [Lit ''AgentIDSubOption'']
       \<notin> set (effects (requeststats_Handler4
                         ((relayed_request Map.empty)\<lparr>GatewayIPAddr := [0, 0, 0, 0]\<rparr>) offer))
   \<and> Inc dhcpv4_rai_missing_suboptions_total [Lit ''interface identifier'']
       \<notin> set (effects (requeststats_Handler4 (relayed_request Map.empty) offer))
   \<and> last (effects (responsestats_Handler4 (relayed_request Map.empty) offer))
       \<noteq> Logger (LogRelay [10, 99, 99, 1] None ''unspecified'' [0, 17, 34, 51, 68, 85] [])"
  by (simp add: requeststats_Handler4_def responsestats_Handler4_def pass4_def Let_def
      relayed_request_def offer_def IsUnspecified_def GetString_def GetIP_def
      OpcodeBootRequest_def MessageTypeAck_def AgentCircuitIDSubOption_def
      AgentRemoteIDSubOption_def LinkSelectionSubOption_def)

text \<open>
  C10 (the DHCPv4 response handler changes nothing). Whatever the request and the
  response, the handler returns the response it was given, leaves it as it was, and never
  sets the stop flag.
\<close>

theorem Handler4_frame:
  "returned (responsestats_Handler4 req resp) = Some resp
   \<and> final_resp (responsestats_Handler4 req resp) = resp
   \<and> dropped (responsestats_Handler4 req resp) = False"
  by (simp add: responsestats_Handler4_def pass4_def Let_def split: option.splits)

theorem Handler4_frame_witness:
  "returned (responsestats_Handler4 (relayed_request Map.empty) offer) = Some offer
   \<and> final_resp (responsestats_Handler4 (relayed_request Map.empty) offer) = offer
   \<and> dropped (responsestats_Handler4 (relayed_request Map.empty) offer) = False"
  by (rule Handler4_frame)

end
